theory Spec2Isabelle
  imports Complex_Main
begin

section \<open>The Maybe type of src/src/maybe.ts\<close>

text \<open>
  \<^verbatim>\<open>export type Maybe<T> = { kind: 'None' } | { kind: 'Some', value: T };\<close>
  The discriminated union is a datatype with one constructor per \<^verbatim>\<open>kind\<close>.  The
  exported constructor functions \<^verbatim>\<open>Some(val)\<close> and \<^verbatim>\<open>None()\<close> only build the object
  literal of their variant, so the datatype constructors stand for them as well
  (with the suffix \<open>_m\<close>, the plain names being those of HOL's option type).
\<close>

datatype 'a maybe = None_m | Some_m 'a

fun kind :: "'a maybe \<Rightarrow> string" where
  "kind None_m = ''None''"
| "kind (Some_m v) = ''Some''"

section \<open>Effects: exceptions and the world outside the library\<close>

text \<open>
  The library throws in one place and calls functions it is handed (\<^verbatim>\<open>mapper\<close>,
  \<^verbatim>\<open>binder\<close>, \<^verbatim>\<open>action\<close>), which in TypeScript may throw and may change anything
  they can reach.  A computation therefore takes the state \<open>'s\<close> of the world outside
  the library and returns either the thrown error or a value, with the state it leaves.
\<close>

datatype error = Error string

type_synonym ('a, 's) eff = "'s \<Rightarrow> (error + 'a) \<times> 's"

definition ret :: "'a \<Rightarrow> ('a, 's) eff" where
  "ret x = (\<lambda>s. (Inr x, s))"

definition seq :: "('a, 's) eff \<Rightarrow> ('a \<Rightarrow> ('b, 's) eff) \<Rightarrow> ('b, 's) eff" where
  "seq c k = (\<lambda>s. case c s of (Inl e, s') \<Rightarrow> (Inl e, s') | (Inr x, s') \<Rightarrow> k x s')"

definition fails :: "('a, 's) eff \<Rightarrow> 's \<Rightarrow> bool" where
  "fails c s = (case fst (c s) of Inl e \<Rightarrow> True | Inr x \<Rightarrow> False)"

text \<open>
  The probe of the test suite (\<^verbatim>\<open>jasmine.createSpy\<close>): a callback that appends the
  argument it is called with to a log kept beside the state, and otherwise behaves as
  the function it wraps.
\<close>

definition spy :: "('a \<Rightarrow> ('b, 's) eff) \<Rightarrow> 'a \<Rightarrow> ('b, 'a list \<times> 's) eff" where
  "spy f x = (\<lambda>(calls, s). case f x s of (r, s') \<Rightarrow> (r, (calls @ [x], s')))"

section \<open>Extraction\<close>

text \<open>
  The message of the one error the library throws, \<^verbatim>\<open>"Expected 'Some' but was given 'None'"\<close>;
  \<open>CHR 0x27\<close> is the apostrophe.
\<close>

definition quoted :: "string \<Rightarrow> string" where
  "quoted s = CHR 0x27 # s @ [CHR 0x27]"

definition none_message :: string where
  "none_message = ''Expected '' @ quoted ''Some'' @ '' but was given '' @ quoted ''None''"

text \<open>
  \<^verbatim>\<open>get\<close>: the \<^verbatim>\<open>'None'\<close> case throws \<^verbatim>\<open>new Error("Expected 'Some' but was given 'None'")\<close>.
\<close>

definition get :: "'a maybe \<Rightarrow> error + 'a" where
  "get maybe = (case maybe of
      None_m \<Rightarrow> Inl (Error none_message)
    | Some_m v \<Rightarrow> Inr v)"

section \<open>JavaScript values\<close>

text \<open>
  The lifting functions look at the value they are given (\<^verbatim>\<open>!!value\<close>,
  \<^verbatim>\<open>value != null\<close>), and a \<^verbatim>\<open>T\<close> is at run time any JavaScript value, so the
  values are modelled by their language type.  A Number is a double: the datatype
  keeps apart what the language's boolean coercion tells apart (NaN, the two zeros)
  and takes every other number as the real it denotes (\<open>Num 0\<close> is \<^verbatim>\<open>+0\<close>).
  Symbols and objects (arrays and functions are objects) are known by identity.  An
  object also says whether it has the \<^verbatim>\<open>[[IsHTMLDDA]]\<close> internal slot (ECMAScript
  Annex B.3.6; in a browser \<^verbatim>\<open>document.all\<close> is such an object): the boolean coercion
  and the loose comparisons with null and undefined treat such an object as they treat
  undefined.
\<close>

datatype jsnumber = NaN | PosInfinity | NegInfinity | NegZero | Num real

datatype jsval =
    JUndefined
  | JNull
  | JBoolean bool
  | JNumber jsnumber
  | JBigInt int
  | JString string
  | JSymbol nat
  | JObject nat bool

text \<open>
  ECMAScript \<^verbatim>\<open>ToBoolean\<close>, which \<^verbatim>\<open>!\<close> applies to its operand: undefined, null,
  \<^verbatim>\<open>false\<close>, \<^verbatim>\<open>+0\<close>, \<^verbatim>\<open>-0\<close>, \<^verbatim>\<open>NaN\<close>, \<^verbatim>\<open>0n\<close>, the empty string and an object with the
  \<^verbatim>\<open>[[IsHTMLDDA]]\<close> internal slot are false, everything else is true.
\<close>

fun ToBoolean :: "jsval \<Rightarrow> bool" where
  "ToBoolean JUndefined = False"
| "ToBoolean JNull = False"
| "ToBoolean (JBoolean b) = b"
| "ToBoolean (JNumber NaN) = False"
| "ToBoolean (JNumber NegZero) = False"
| "ToBoolean (JNumber (Num x)) = (x \<noteq> 0)"
| "ToBoolean (JNumber PosInfinity) = True"
| "ToBoolean (JNumber NegInfinity) = True"
| "ToBoolean (JBigInt i) = (i \<noteq> 0)"
| "ToBoolean (JString str) = (str \<noteq> [])"
| "ToBoolean (JSymbol a) = True"
| "ToBoolean (JObject a slot) = (\<not> slot)"

text \<open>
  The loose comparisons \<^verbatim>\<open>val == null\<close> and \<^verbatim>\<open>val == undefined\<close> (ECMAScript
  \<^verbatim>\<open>IsLooselyEqual\<close>): null and undefined are loosely equal to themselves and to each
  other, and an object with the \<^verbatim>\<open>[[IsHTMLDDA]]\<close> internal slot is loosely equal to
  both; the conversions of the later steps of the algorithm apply to a Number, String,
  BigInt, Boolean or Object operand facing another of those, never to one facing null
  or undefined, where the result is false.
\<close>

fun eq_null :: "jsval \<Rightarrow> bool" where
  "eq_null JNull = True"
| "eq_null JUndefined = True"
| "eq_null (JObject a slot) = slot"
| "eq_null val = False"

fun eq_undefined :: "jsval \<Rightarrow> bool" where
  "eq_undefined JUndefined = True"
| "eq_undefined JNull = True"
| "eq_undefined (JObject a slot) = slot"
| "eq_undefined val = False"

section \<open>Lifting\<close>

text \<open>
  \<^verbatim>\<open>ofVal(val, useTruthyCheck = false)\<close>: the second argument may be left out, so it is
  an option here and the default is written out.  \<^verbatim>\<open>check\<close> is \<^verbatim>\<open>value => !!value\<close>
  or \<^verbatim>\<open>value => value != null && value != undefined\<close>.
\<close>

definition ofVal :: "jsval \<Rightarrow> bool option \<Rightarrow> jsval maybe" where
  "ofVal val arg =
     (let useTruthyCheck = (case arg of None \<Rightarrow> False | Some b \<Rightarrow> b);
          check = (if useTruthyCheck
                   then (\<lambda>value. \<not> \<not> ToBoolean value)
                   else (\<lambda>value. \<not> eq_null value \<and> \<not> eq_undefined value))
      in if check val then Some_m val else None_m)"

definition ofNullable :: "jsval \<Rightarrow> jsval maybe" where
  "ofNullable val = (if eq_null val then None_m else ofVal val None)"

definition ofUndefinable :: "jsval \<Rightarrow> jsval maybe" where
  "ofUndefinable val = (if eq_undefined val then None_m else ofVal val None)"

definition toNullable :: "jsval maybe \<Rightarrow> jsval" where
  "toNullable maybe = (case maybe of
      None_m \<Rightarrow> JNull
    | Some_m v \<Rightarrow> v)"

section \<open>Inspection\<close>

definition isSome :: "'a maybe \<Rightarrow> bool" where
  "isSome maybe = (kind maybe = ''Some'')"

definition isNone :: "'a maybe \<Rightarrow> bool" where
  "isNone maybe = (kind maybe = ''None'')"

section \<open>map and bind\<close>

definition map_m :: "('i \<Rightarrow> ('o, 's) eff) \<Rightarrow> 'i maybe \<Rightarrow> ('o maybe, 's) eff" where
  "map_m mapper maybe = (case maybe of
      None_m \<Rightarrow> ret None_m
    | Some_m v \<Rightarrow> seq (mapper v) (\<lambda>out. ret (Some_m out)))"

definition bind_m :: "('i \<Rightarrow> ('o maybe, 's) eff) \<Rightarrow> 'i maybe \<Rightarrow> ('o maybe, 's) eff" where
  "bind_m binder maybe = (case maybe of
      None_m \<Rightarrow> ret None_m
    | Some_m v \<Rightarrow> binder v)"

text \<open>
  The object literals \<^verbatim>\<open>{ value1: value1, value2: value2 }\<close> of \<^verbatim>\<open>map2_m\<close> and \<^verbatim>\<open>bind2\<close>
  and \<^verbatim>\<open>{ value1: value1, value2: value2, value3: value3 }\<close> of \<^verbatim>\<open>map3\<close>.
\<close>

record ('a, 'b) values2 =
  value1 :: 'a
  value2 :: 'b

record ('a, 'b, 'c) values3 = "('a, 'b) values2" +
  value3 :: 'c

text \<open>
  A call \<^verbatim>\<open>map(f, bind(g, m))\<close> evaluates its argument \<^verbatim>\<open>bind(g, m)\<close> first and
  then runs \<^verbatim>\<open>map\<close> on the result: \<open>seq (bind_m g m) (map_m f)\<close>.  The arrow
  functions that only build an object literal have no effect: they return with \<open>ret\<close>.
\<close>

definition map2_m ::
  "('i1 \<Rightarrow> 'i2 \<Rightarrow> ('o, 's) eff) \<Rightarrow> 'i1 maybe \<Rightarrow> 'i2 maybe \<Rightarrow> ('o maybe, 's) eff" where
  "map2_m mapper maybe1 maybe2 =
     seq (bind_m
            (\<lambda>v1. map_m (\<lambda>v2. ret \<lparr>value1 = v1, value2 = v2\<rparr>) maybe2)
            maybe1)
         (map_m (\<lambda>values. mapper (value1 values) (value2 values)))"

definition bind2 ::
  "('i1 \<Rightarrow> 'i2 \<Rightarrow> ('o maybe, 's) eff) \<Rightarrow> 'i1 maybe \<Rightarrow> 'i2 maybe \<Rightarrow> ('o maybe, 's) eff" where
  "bind2 binder maybe1 maybe2 =
     seq (bind_m
            (\<lambda>v1. map_m (\<lambda>v2. ret \<lparr>value1 = v1, value2 = v2\<rparr>) maybe2)
            maybe1)
         (bind_m (\<lambda>values. binder (value1 values) (value2 values)))"

definition map3 ::
  "('i1 \<Rightarrow> 'i2 \<Rightarrow> 'i3 \<Rightarrow> ('o, 's) eff) \<Rightarrow> 'i1 maybe \<Rightarrow> 'i2 maybe \<Rightarrow> 'i3 maybe
     \<Rightarrow> ('o maybe, 's) eff" where
  "map3 mapper maybe1 maybe2 maybe3 =
     seq (bind2
            (\<lambda>v1 v2. map_m (\<lambda>v3. ret \<lparr>value1 = v1, value2 = v2, value3 = v3\<rparr>) maybe3)
            maybe1
            maybe2)
         (map_m (\<lambda>values. mapper (value1 values) (value2 values) (value3 values)))"

section \<open>combine, iter, withDefault\<close>

text \<open>
  \<^verbatim>\<open>Array.prototype.reduce(callback, initialValue)\<close>: the callback is applied to the
  accumulator and each element from left to right; with an initial value an empty
  array gives that value back.  An error thrown by the callback ends the loop.
\<close>

fun reduce :: "('b \<Rightarrow> 'a \<Rightarrow> ('b, 's) eff) \<Rightarrow> 'b \<Rightarrow> 'a list \<Rightarrow> ('b, 's) eff" where
  "reduce callback acc [] = ret acc"
| "reduce callback acc (cur # rest) =
     seq (callback acc cur) (\<lambda>acc'. reduce callback acc' rest)"

text \<open>The array spread \<^verbatim>\<open>[...value, value2]\<close> is \<open>value @ [value2]\<close>.\<close>

definition combine :: "'a maybe list \<Rightarrow> ('a list maybe, 's) eff" where
  "combine maybes =
     reduce
       (\<lambda>acc cur. bind_m (\<lambda>v. map_m (\<lambda>v2. ret (v @ [v2])) cur) acc)
       (Some_m [])
       maybes"

text \<open>
  \<^verbatim>\<open>iter\<close>: the \<^verbatim>\<open>switch\<close> has the one case \<^verbatim>\<open>'Some'\<close>; what \<^verbatim>\<open>action\<close> returns is
  dropped, and the function returns nothing.
\<close>

definition iter :: "('a \<Rightarrow> ('r, 's) eff) \<Rightarrow> 'a maybe \<Rightarrow> (unit, 's) eff" where
  "iter action maybe = (case maybe of
      Some_m v \<Rightarrow> seq (action v) (\<lambda>r. ret ())
    | None_m \<Rightarrow> ret ())"

definition withDefault :: "'a \<Rightarrow> 'a maybe \<Rightarrow> 'a" where
  "withDefault def maybe = (case maybe of
      Some_m v \<Rightarrow> v
    | None_m \<Rightarrow> def)"

text \<open>Probes for callbacks of two and three arguments: the log holds the argument tuples.\<close>

definition spy2 ::
  "('a \<Rightarrow> 'b \<Rightarrow> ('c, 's) eff) \<Rightarrow> 'a \<Rightarrow> 'b \<Rightarrow> ('c, ('a \<times> 'b) list \<times> 's) eff" where
  "spy2 f x y = spy (\<lambda>(x, y). f x y) (x, y)"

definition spy3 ::
  "('a \<Rightarrow> 'b \<Rightarrow> 'c \<Rightarrow> ('d, 's) eff) \<Rightarrow> 'a \<Rightarrow> 'b \<Rightarrow> 'c
     \<Rightarrow> ('d, ('a \<times> 'b \<times> 'c) list \<times> 's) eff" where
  "spy3 f x y z = spy (\<lambda>(x, y, z). f x y z) (x, y, z)"

section \<open>Laws of the effect operations\<close>

lemma seq_ret [simp]: "seq (ret x) k = k x"
  by (simp add: seq_def ret_def)

lemma ret_unchanged: "c = ret x \<Longrightarrow> c s = (Inr x, s)"
  by (simp add: ret_def)

lemma fails_ret: "\<not> fails (ret x) s"
  by (simp add: fails_def ret_def)

lemma fails_seq_ret: "fails (seq c (\<lambda>x. ret (h x))) s = fails c s"
  by (simp add: fails_def seq_def ret_def split: prod.splits sum.splits)

lemma snd_seq_ret: "snd (seq c (\<lambda>x. ret (h x)) s) = snd (c s)"
  by (simp add: seq_def ret_def split: prod.splits sum.splits)

lemma spy_apply: "spy f x (calls, s) = (fst (f x s), (calls @ [x], snd (f x s)))"
  by (simp add: spy_def split: prod.splits)

lemma spy2_apply: "spy2 f x y (calls, s) = (fst (f x y s), (calls @ [(x, y)], snd (f x y s)))"
  by (simp add: spy2_def spy_apply)

lemma spy3_apply:
  "spy3 f x y z (calls, s) = (fst (f x y z s), (calls @ [(x, y, z)], snd (f x y z s)))"
  by (simp add: spy3_def spy_apply)

section \<open>The combinators, variant by variant\<close>

lemma map_m_None: "map_m f None_m = ret None_m"
  by (simp add: map_m_def)

lemma map_m_Some: "map_m f (Some_m v) = seq (f v) (\<lambda>out. ret (Some_m out))"
  by (simp add: map_m_def)

lemma map_m_pure: "map_m (\<lambda>x. ret (p x)) (Some_m v) = ret (Some_m (p v))"
  by (simp add: map_m_def)

lemma bind_m_None: "bind_m g None_m = ret None_m"
  by (simp add: bind_m_def)

lemma bind_m_Some: "bind_m g (Some_m v) = g v"
  by (simp add: bind_m_def)

lemma map2_m_None:
  "map2_m f None_m m2 = ret None_m"
  "map2_m f m1 None_m = ret None_m"
  by (cases m1; simp add: map2_m_def map_m_None bind_m_None bind_m_Some)+

lemma map2_m_Some: "map2_m f (Some_m a) (Some_m b) = seq (f a b) (\<lambda>out. ret (Some_m out))"
  by (simp add: map2_m_def map_m_Some bind_m_Some)

lemma map2_m_pure: "map2_m (\<lambda>x y. ret (p x y)) (Some_m a) (Some_m b) = ret (Some_m (p a b))"
  by (simp add: map2_m_Some)

lemma bind2_None:
  "bind2 g None_m m2 = ret None_m"
  "bind2 g m1 None_m = ret None_m"
  by (cases m1; simp add: bind2_def map_m_None bind_m_None bind_m_Some)+

lemma bind2_Some: "bind2 g (Some_m a) (Some_m b) = g a b"
  by (simp add: bind2_def map_m_Some bind_m_Some)

lemma map3_None:
  "map3 h None_m m2 m3 = ret None_m"
  "map3 h m1 None_m m3 = ret None_m"
  "map3 h m1 m2 None_m = ret None_m"
  by (cases m1; cases m2;
      simp add: map3_def bind2_None bind2_Some map_m_None)+

lemma map3_Some:
  "map3 h (Some_m a) (Some_m b) (Some_m c) = seq (h a b c) (\<lambda>out. ret (Some_m out))"
  by (simp add: map3_def bind2_Some map_m_Some)

lemma map3_pure:
  "map3 (\<lambda>x y z. ret (q x y z)) (Some_m a) (Some_m b) (Some_m c) = ret (Some_m (q a b c))"
  by (simp add: map3_Some)

lemma iter_None: "iter action None_m = ret ()"
  by (simp add: iter_def)

lemma iter_Some: "iter action (Some_m v) = seq (action v) (\<lambda>r. ret ())"
  by (simp add: iter_def)

subsection \<open>The loop of combine\<close>

text \<open>
  The accumulator changes at every element, so the facts about \<open>reduce\<close> are stated
  for any accumulator: once it is \<open>None_m\<close> it stays so, and over elements that are
  all \<open>Some_m\<close> it grows at its end.
\<close>

lemma combine_step_None:
  "bind_m (\<lambda>v. map_m (\<lambda>v2. ret (v @ [v2])) cur) None_m = ret None_m"
  "bind_m (\<lambda>v. map_m (\<lambda>v2. ret (v @ [v2])) None_m) acc = ret None_m"
  by (cases acc; simp add: bind_m_def map_m_def)+

lemma combine_step_Some:
  "bind_m (\<lambda>v. map_m (\<lambda>v2. ret (v @ [v2])) (Some_m x)) (Some_m vs) = ret (Some_m (vs @ [x]))"
  by (simp add: bind_m_def map_m_def)

lemma reduce_from_None:
  "reduce (\<lambda>acc cur. bind_m (\<lambda>v. map_m (\<lambda>v2. ret (v @ [v2])) cur) acc) None_m maybes
     = ret None_m"
  by (induction maybes) (simp_all add: combine_step_None)

lemma reduce_all_Some:
  "reduce (\<lambda>acc cur. bind_m (\<lambda>v. map_m (\<lambda>v2. ret (v @ [v2])) cur) acc) (Some_m acc)
     (map Some_m vs) = ret (Some_m (acc @ vs))"
  by (induction vs arbitrary: acc) (simp_all add: combine_step_Some)

lemma reduce_with_None:
  "None_m \<in> set maybes \<Longrightarrow>
   reduce (\<lambda>acc cur. bind_m (\<lambda>v. map_m (\<lambda>v2. ret (v @ [v2])) cur) acc) (Some_m acc) maybes
     = ret None_m"
proof (induction maybes arbitrary: acc)
  case Nil
  then show ?case by simp
next
  case (Cons m ms)
  show ?case
  proof (cases m)
    case None_m
    then show ?thesis by (simp add: combine_step_None reduce_from_None)
  next
    case (Some_m x)
    with Cons.prems have "None_m \<in> set ms" by simp
    with Some_m show ?thesis by (simp add: combine_step_Some Cons.IH)
  qed
qed

lemma all_Some_values: "None_m \<notin> set maybes \<Longrightarrow> \<exists>vs. maybes = map Some_m vs"
proof (induction maybes)
  case Nil
  then show ?case by simp
next
  case (Cons m ms)
  then obtain vs where "ms = map Some_m vs" by auto
  moreover from Cons.prems obtain x where "m = Some_m x" by (cases m) auto
  ultimately have "m # ms = map Some_m (x # vs)" by simp
  then show ?case by (rule exI)
qed

lemma combine_all_Some: "combine (map Some_m vs) = ret (Some_m vs)"
  by (simp add: combine_def reduce_all_Some)

lemma combine_with_None: "None_m \<in> set maybes \<Longrightarrow> combine maybes = ret None_m"
  by (simp add: combine_def reduce_with_None)

lemma inj_Some_m: "(map Some_m vs = map Some_m ws) = (vs = ws)"
  by (simp add: inj_map_eq_map inj_on_def)

subsection \<open>Which computations fail\<close>

lemma fails_map_m: "fails (map_m f m) s = (\<exists>v. m = Some_m v \<and> fails (f v) s)"
  by (cases m) (simp_all add: map_m_def fails_ret fails_seq_ret)

lemma fails_bind_m: "fails (bind_m g m) s = (\<exists>v. m = Some_m v \<and> fails (g v) s)"
  by (cases m) (simp_all add: bind_m_def fails_ret)

lemma fails_map2_m:
  "fails (map2_m f m1 m2) s = (\<exists>a b. m1 = Some_m a \<and> m2 = Some_m b \<and> fails (f a b) s)"
  by (cases m1; cases m2) (simp_all add: map2_m_None map2_m_Some fails_ret fails_seq_ret)

lemma fails_bind2:
  "fails (bind2 g m1 m2) s = (\<exists>a b. m1 = Some_m a \<and> m2 = Some_m b \<and> fails (g a b) s)"
  by (cases m1; cases m2) (simp_all add: bind2_None bind2_Some fails_ret)

lemma fails_map3:
  "fails (map3 h m1 m2 m3) s =
     (\<exists>a b c. m1 = Some_m a \<and> m2 = Some_m b \<and> m3 = Some_m c \<and> fails (h a b c) s)"
  by (cases m1; cases m2; cases m3) (simp_all add: map3_None map3_Some fails_ret fails_seq_ret)

lemma fails_iter: "fails (iter action m) s = (\<exists>v. m = Some_m v \<and> fails (action v) s)"
  by (cases m) (simp_all add: iter_def fails_ret fails_seq_ret)

lemma not_fails_combine: "\<not> fails (combine maybes) s"
proof (cases "None_m \<in> set maybes")
  case True
  then show ?thesis by (simp add: combine_with_None fails_ret)
next
  case False
  then obtain ws where "maybes = map Some_m ws"
    using all_Some_values by blast
  then show ?thesis by (simp add: combine_all_Some fails_ret)
qed

subsection \<open>The sentinels and the boolean coercion\<close>

lemma eq_null_iff: "eq_null v = (v = JNull \<or> v = JUndefined \<or> (\<exists>n. v = JObject n True))"
  by (cases v) simp_all

lemma eq_undefined_iff: "eq_undefined v = eq_null v"
  by (cases v) simp_all

lemma ToBoolean_iff:
  "(\<not> ToBoolean v) = (v \<in> {JUndefined, JNull, JBoolean False, JNumber (Num 0), JNumber NegZero,
      JNumber NaN, JBigInt 0, JString []} \<or> (\<exists>n. v = JObject n True))"
proof (cases v)
  case (JNumber n)
  then show ?thesis by (cases n) simp_all
qed simp_all

lemma ofVal_default: "ofVal v None = (if eq_null v then None_m else Some_m v)"
  by (simp add: ofVal_def eq_undefined_iff)

lemma ofVal_False: "ofVal v (Some False) = (if eq_null v then None_m else Some_m v)"
  by (simp add: ofVal_def eq_undefined_iff)

lemma ofVal_True: "ofVal v (Some True) = (if ToBoolean v then Some_m v else None_m)"
  by (simp add: ofVal_def)

section \<open>Scenarios of the specification and of the test suite\<close>

lemma scenario_ofVal:
  "ofVal (JString ''x'') (Some True) = Some_m (JString ''x'')"
  "ofVal (JString ''abc'') None = Some_m (JString ''abc'')"
  "ofVal JNull None = None_m"
  "ofVal JUndefined None = None_m"
  "ofNullable JNull = None_m"
  "ofNullable (JString ''a'') = Some_m (JString ''a'')"
  "ofUndefinable JNull = None_m"
  "ofUndefinable (JString ''foo'') = Some_m (JString ''foo'')"
  by (simp_all add: ofVal_def ofNullable_def ofUndefinable_def)

lemma scenario_inspect:
  "isSome (Some_m ''foo'')" "\<not> isSome None_m" "isNone None_m" "\<not> isNone (Some_m ''foo'')"
  "isNone m = (\<not> isSome m)"
  "withDefault d (Some_m v) = v" "toNullable (Some_m x) = x"
  by (cases m; simp add: isSome_def isNone_def withDefault_def toNullable_def)+

lemma scenario_map2:
  "map2_m (\<lambda>a b. ret (a @ ''-'' @ b)) (Some_m ''foo'') (Some_m ''bar'') = ret (Some_m ''foo-bar'')"
  by (simp add: map2_m_Some)

lemma scenario_bind:
  "bind_m (\<lambda>v. ret (if length v > 0 then Some_m v else None_m)) (Some_m []) = ret None_m"
  by (simp add: bind_m_Some)

lemma scenario_combine:
  "combine [Some_m (1::int), None_m, Some_m 3] = ret None_m"
  "combine [Some_m (1::int), Some_m 2] = ret (Some_m [1, 2])"
  by (simp_all add: combine_def combine_step_None combine_step_Some)

section \<open>The claims\<close>

text \<open>
  Claim C1.  \<^verbatim>\<open>get(Some(v))\<close> returns \<open>v\<close>; \<^verbatim>\<open>get(None())\<close> fails, with the library's one
  error (the specification's EmptyValueError; in the source an \<^verbatim>\<open>Error\<close> with the
  message \<open>none_message\<close>), and \<^verbatim>\<open>get\<close> fails on no other input.  No other operation
  fails by itself.  On the absent inputs, where \<^verbatim>\<open>get\<close> throws, the operations without a
  callback return a value (they have no \<^verbatim>\<open>throw\<close>, and are functions without an error
  result).  An operation with a callback fails exactly when every argument is \<open>Some_m\<close>
  and the call of the callback on the payloads fails: with a callback that is total it
  never does.  \<^verbatim>\<open>combine\<close> never fails.
\<close>

theorem get_is_the_only_failure:
  "get (Some_m v) = Inr v
   \<and> get None_m = Inl (Error none_message)
   \<and> (get m = Inl e) = (m = None_m \<and> e = Error none_message)
   \<and> toNullable None_m = JNull
   \<and> withDefault d None_m = d
   \<and> isSome (None_m :: 'z maybe) = False
   \<and> isNone (None_m :: 'z maybe) = True
   \<and> ofVal JNull arg = None_m
   \<and> ofVal JUndefined arg = None_m
   \<and> ofNullable JNull = None_m
   \<and> ofUndefinable JUndefined = None_m
   \<and> fails (map_m f m1) s = (\<exists>a. m1 = Some_m a \<and> fails (f a) s)
   \<and> fails (bind_m g m1) s = (\<exists>a. m1 = Some_m a \<and> fails (g a) s)
   \<and> fails (map2_m f2 m1 m2) s = (\<exists>a b. m1 = Some_m a \<and> m2 = Some_m b \<and> fails (f2 a b) s)
   \<and> fails (bind2 g2 m1 m2) s = (\<exists>a b. m1 = Some_m a \<and> m2 = Some_m b \<and> fails (g2 a b) s)
   \<and> fails (map3 f3 m1 m2 m3) s =
       (\<exists>a b c. m1 = Some_m a \<and> m2 = Some_m b \<and> m3 = Some_m c \<and> fails (f3 a b c) s)
   \<and> fails (iter action m1) s = (\<exists>a. m1 = Some_m a \<and> fails (action a) s)
   \<and> \<not> fails (map_m (\<lambda>x. ret (p x)) m1) s
   \<and> \<not> fails (map2_m (\<lambda>x y. ret (p2 x y)) m1 m2) s
   \<and> \<not> fails (map3 (\<lambda>x y z. ret (p3 x y z)) m1 m2 m3) s
   \<and> \<not> fails (bind_m (\<lambda>x. ret (b x)) m1) s
   \<and> \<not> fails (bind2 (\<lambda>x y. ret (b2 x y)) m1 m2) s
   \<and> \<not> fails (iter (\<lambda>x. ret (p x)) m1) s
   \<and> \<not> fails (combine maybes) s"
proof -
  have "(get m = Inl e) = (m = None_m \<and> e = Error none_message)"
    by (cases m) (auto simp: get_def)
  moreover have "get (Some_m v) = Inr v" "get None_m = Inl (Error none_message)"
    by (simp_all add: get_def)
  moreover have "toNullable None_m = JNull" "withDefault d None_m = d"
    by (simp_all add: toNullable_def withDefault_def)
  moreover have "isSome (None_m :: 'z maybe) = False" "isNone (None_m :: 'z maybe) = True"
    by (simp_all add: isSome_def isNone_def)
  moreover have "ofVal JNull arg = None_m" "ofVal JUndefined arg = None_m"
    by (cases arg; simp add: ofVal_def)+
  moreover have "ofNullable JNull = None_m" "ofUndefinable JUndefined = None_m"
    by (simp_all add: ofNullable_def ofUndefinable_def)
  moreover have "\<not> fails (map_m (\<lambda>x. ret (p x)) m1) s"
    by (simp add: fails_map_m fails_ret)
  moreover have "\<not> fails (map2_m (\<lambda>x y. ret (p2 x y)) m1 m2) s"
    by (simp add: fails_map2_m fails_ret)
  moreover have "\<not> fails (map3 (\<lambda>x y z. ret (p3 x y z)) m1 m2 m3) s"
    by (simp add: fails_map3 fails_ret)
  moreover have "\<not> fails (bind_m (\<lambda>x. ret (b x)) m1) s"
    by (simp add: fails_bind_m fails_ret)
  moreover have "\<not> fails (bind2 (\<lambda>x y. ret (b2 x y)) m1 m2) s"
    by (simp add: fails_bind2 fails_ret)
  moreover have "\<not> fails (iter (\<lambda>x. ret (p x)) m1) s"
    by (simp add: fails_iter fails_ret)
  ultimately show ?thesis
    by (intro conjI)
      (assumption | rule fails_map_m fails_bind_m fails_map2_m fails_bind2 fails_map3 fails_iter
         not_fails_combine)+
qed

text \<open>
  Claim C2.  \<^verbatim>\<open>combine\<close> of the empty array is \<open>Some_m []\<close>; of an array whose elements
  are all \<open>Some_m\<close> it is \<open>Some_m\<close> of the payloads in the order of the array; of an
  array with a \<open>None_m\<close> at any place it is \<open>None_m\<close>.  So it returns \<open>Some_m vs\<close>
  exactly when the array is \<open>map Some_m vs\<close>, and \<open>None_m\<close> exactly when some element
  is \<open>None_m\<close>; it changes nothing outside.
\<close>

theorem combine_all_or_nothing:
  "combine [] = ret (Some_m [])
   \<and> combine (map Some_m vs) = ret (Some_m vs)
   \<and> combine (pre @ None_m # post) = ret None_m
   \<and> (fst (combine maybes s) = Inr (Some_m vs)) = (maybes = map Some_m vs)
   \<and> (fst (combine maybes s) = Inr None_m) = (None_m \<in> set maybes)
   \<and> snd (combine maybes s) = s"
proof -
  have empty: "combine [] = ret (Some_m [])"
    by (simp add: combine_def)
  have anywhere: "combine (pre @ None_m # post) = ret None_m"
    by (rule combine_with_None) simp
  have some_iff: "(fst (combine maybes s) = Inr (Some_m vs)) = (maybes = map Some_m vs)"
  proof (cases "None_m \<in> set maybes")
    case True
    then have "fst (combine maybes s) = Inr None_m"
      by (simp add: combine_with_None ret_def)
    moreover from True have "maybes \<noteq> map Some_m vs" by auto
    ultimately show ?thesis by simp
  next
    case False
    then obtain ws where ws: "maybes = map Some_m ws"
      using all_Some_values by blast
    then have "fst (combine maybes s) = Inr (Some_m ws)"
      by (simp add: combine_all_Some ret_def)
    with ws show ?thesis by (auto simp: inj_Some_m)
  qed
  have none_iff: "(fst (combine maybes s) = Inr None_m) = (None_m \<in> set maybes)"
  proof (cases "None_m \<in> set maybes")
    case True
    then show ?thesis by (simp add: combine_with_None ret_def)
  next
    case False
    then obtain ws where ws: "maybes = map Some_m ws"
      using all_Some_values by blast
    then have "fst (combine maybes s) = Inr (Some_m ws)"
      by (simp add: combine_all_Some ret_def)
    with False show ?thesis by simp
  qed
  have state: "snd (combine maybes s) = s"
  proof (cases "None_m \<in> set maybes")
    case True
    then show ?thesis by (simp add: combine_with_None ret_def)
  next
    case False
    then obtain ws where "maybes = map Some_m ws"
      using all_Some_values by blast
    then show ?thesis by (simp add: combine_all_Some ret_def)
  qed
  from empty combine_all_Some anywhere some_iff none_iff state show ?thesis
    by blast
qed

text \<open>
  Claim C3.  On \<open>None_m\<close>, \<^verbatim>\<open>map\<close> and \<^verbatim>\<open>bind\<close> return \<open>None_m\<close> and leave everything as
  it is, whatever the function: it is not called, and a probe's log stays as it was.
  On \<open>Some_m v\<close>, \<^verbatim>\<open>map\<close> calls the function once on \<open>v\<close> and wraps what it returns
  (\<open>Some_m (p v)\<close> for a function \<open>p\<close> without effects), and \<^verbatim>\<open>bind\<close> is the call of the
  binder on \<open>v\<close>, its result unchanged.
\<close>

theorem map_bind_by_variant:
  "map_m f None_m = ret None_m
   \<and> bind_m g None_m = ret None_m
   \<and> map_m (spy f) None_m (calls, s) = (Inr None_m, (calls, s))
   \<and> bind_m (spy g) None_m (calls, s) = (Inr None_m, (calls, s))
   \<and> map_m f (Some_m v) = seq (f v) (\<lambda>out. ret (Some_m out))
   \<and> map_m (\<lambda>x. ret (p x)) (Some_m v) = ret (Some_m (p v))
   \<and> snd (map_m (spy f) (Some_m v) (calls, s)) = (calls @ [v], snd (f v s))
   \<and> bind_m g (Some_m v) = g v
   \<and> snd (bind_m (spy g) (Some_m v) (calls, s)) = (calls @ [v], snd (g v s))"
proof -
  have "snd (map_m (spy f) (Some_m v) (calls, s)) = (calls @ [v], snd (f v s))"
    by (simp add: map_m_Some snd_seq_ret spy_apply)
  moreover have "snd (bind_m (spy g) (Some_m v) (calls, s)) = (calls @ [v], snd (g v s))"
    by (simp add: bind_m_Some spy_apply)
  ultimately show ?thesis
    by (intro conjI)
      (assumption | rule map_m_None bind_m_None map_m_Some map_m_pure bind_m_Some
        ret_unchanged [OF map_m_None] ret_unchanged [OF bind_m_None])+
qed

text \<open>
  Claim C4.  \<^verbatim>\<open>map2\<close>, \<^verbatim>\<open>bind2\<close> and \<^verbatim>\<open>map3\<close> return \<open>None_m\<close> when any one argument is
  \<open>None_m\<close>, whatever the others are, and then leave everything as it is: the
  combining function is not called, and a probe's log stays as it was.  When every
  argument is \<open>Some_m\<close>, the combining function is called once on the payloads in the
  order of the arguments; \<^verbatim>\<open>map2\<close> and \<^verbatim>\<open>map3\<close> wrap what it returns, \<^verbatim>\<open>bind2\<close> returns
  it as it is.
\<close>

theorem map2_bind2_map3_by_variant:
  "map2_m f None_m m2 = ret None_m
   \<and> map2_m f m1 None_m = ret None_m
   \<and> bind2 g None_m m2 = ret None_m
   \<and> bind2 g m1 None_m = ret None_m
   \<and> map3 h None_m m2 m3 = ret None_m
   \<and> map3 h m1 None_m m3 = ret None_m
   \<and> map3 h m1 m2 None_m = ret None_m
   \<and> map2_m (spy2 f) None_m m2 (calls2, s) = (Inr None_m, (calls2, s))
   \<and> map2_m (spy2 f) m1 None_m (calls2, s) = (Inr None_m, (calls2, s))
   \<and> bind2 (spy2 g) None_m m2 (calls2, s) = (Inr None_m, (calls2, s))
   \<and> bind2 (spy2 g) m1 None_m (calls2, s) = (Inr None_m, (calls2, s))
   \<and> map3 (spy3 h) None_m m2 m3 (calls3, s) = (Inr None_m, (calls3, s))
   \<and> map3 (spy3 h) m1 None_m m3 (calls3, s) = (Inr None_m, (calls3, s))
   \<and> map3 (spy3 h) m1 m2 None_m (calls3, s) = (Inr None_m, (calls3, s))
   \<and> map2_m f (Some_m a) (Some_m b) = seq (f a b) (\<lambda>out. ret (Some_m out))
   \<and> map2_m (\<lambda>x y. ret (p x y)) (Some_m a) (Some_m b) = ret (Some_m (p a b))
   \<and> snd (map2_m (spy2 f) (Some_m a) (Some_m b) (calls2, s)) = (calls2 @ [(a, b)], snd (f a b s))
   \<and> map3 h (Some_m a) (Some_m b) (Some_m c) = seq (h a b c) (\<lambda>out. ret (Some_m out))
   \<and> map3 (\<lambda>x y z. ret (q x y z)) (Some_m a) (Some_m b) (Some_m c) = ret (Some_m (q a b c))
   \<and> snd (map3 (spy3 h) (Some_m a) (Some_m b) (Some_m c) (calls3, s))
       = (calls3 @ [(a, b, c)], snd (h a b c s))
   \<and> bind2 g (Some_m a) (Some_m b) = g a b
   \<and> snd (bind2 (spy2 g) (Some_m a) (Some_m b) (calls2, s)) = (calls2 @ [(a, b)], snd (g a b s))"
proof -
  have "snd (map2_m (spy2 f) (Some_m a) (Some_m b) (calls2, s)) = (calls2 @ [(a, b)], snd (f a b s))"
    by (simp add: map2_m_Some snd_seq_ret spy2_apply)
  moreover have "snd (map3 (spy3 h) (Some_m a) (Some_m b) (Some_m c) (calls3, s))
       = (calls3 @ [(a, b, c)], snd (h a b c s))"
    by (simp add: map3_Some snd_seq_ret spy3_apply)
  moreover have "snd (bind2 (spy2 g) (Some_m a) (Some_m b) (calls2, s)) = (calls2 @ [(a, b)], snd (g a b s))"
    by (simp add: bind2_Some spy2_apply)
  ultimately show ?thesis
    by (intro conjI)
      (assumption | rule map2_m_None bind2_None map3_None map2_m_Some map2_m_pure map3_Some
        map3_pure bind2_Some ret_unchanged [OF map2_m_None(1)] ret_unchanged [OF map2_m_None(2)]
        ret_unchanged [OF bind2_None(1)] ret_unchanged [OF bind2_None(2)]
        ret_unchanged [OF map3_None(1)] ret_unchanged [OF map3_None(2)]
        ret_unchanged [OF map3_None(3)])+
qed

text \<open>
  Claim C5.  \<^verbatim>\<open>bind(x => Some(f(x)), m)\<close> is \<^verbatim>\<open>map(f, m)\<close>, for every \<open>m\<close> and every \<open>f\<close>:
  for a function with effects (the same result, the same effects and the same error)
  and so for a function \<open>p\<close> without.
\<close>

theorem bind_of_Some_is_map:
  "bind_m (\<lambda>x. seq (f x) (\<lambda>y. ret (Some_m y))) m = map_m f m
   \<and> bind_m (\<lambda>x. ret (Some_m (p x))) m = map_m (\<lambda>x. ret (p x)) m"
  by (cases m) (simp_all add: map_m_def bind_m_def)

text \<open>
  Claim C6, as amended.  Without the truthy check (the second argument left out, or
  \<^verbatim>\<open>false\<close>), \<^verbatim>\<open>ofVal(v)\<close> is \<open>None_m\<close> when \<open>v\<close> is loosely equal to null, that is when
  \<open>v\<close> is null, undefined or an object with the \<^verbatim>\<open>[[IsHTMLDDA]]\<close> internal slot, and
  \<open>Some_m v\<close> otherwise.  With it, \<^verbatim>\<open>ofVal(v, true)\<close> is \<open>None_m\<close> when the boolean coercion
  of \<open>v\<close> is false, that is for undefined, null, \<^verbatim>\<open>false\<close>, \<^verbatim>\<open>+0\<close>, \<^verbatim>\<open>-0\<close>, \<^verbatim>\<open>NaN\<close>,
  \<^verbatim>\<open>0n\<close>, the empty string and an object with that slot, and \<open>Some_m v\<close> otherwise.  So
  \<^verbatim>\<open>ofVal(0)\<close> is \<^verbatim>\<open>Some(0)\<close> and \<^verbatim>\<open>ofVal(0, true)\<close> is \<^verbatim>\<open>None()\<close>.
\<close>

theorem ofVal_absent_or_falsy:
  "ofVal v None =
       (if v = JNull \<or> v = JUndefined \<or> (\<exists>n. v = JObject n True) then None_m else Some_m v)
   \<and> ofVal v (Some False) =
       (if v = JNull \<or> v = JUndefined \<or> (\<exists>n. v = JObject n True) then None_m else Some_m v)
   \<and> ofVal v (Some True) = (if ToBoolean v then Some_m v else None_m)
   \<and> (ofVal v (Some True) = None_m) =
       (v \<in> {JUndefined, JNull, JBoolean False, JNumber (Num 0), JNumber NegZero, JNumber NaN,
              JBigInt 0, JString []} \<or> (\<exists>n. v = JObject n True))
   \<and> ofVal (JNumber (Num 0)) None = Some_m (JNumber (Num 0))
   \<and> ofVal (JNumber (Num 0)) (Some True) = None_m"
proof -
  have "(ofVal v (Some True) = None_m) = (\<not> ToBoolean v)"
    by (simp add: ofVal_True)
  then have "(ofVal v (Some True) = None_m) =
       (v \<in> {JUndefined, JNull, JBoolean False, JNumber (Num 0), JNumber NegZero, JNumber NaN,
              JBigInt 0, JString []} \<or> (\<exists>n. v = JObject n True))"
    by (simp only: ToBoolean_iff)
  moreover have "ofVal (JNumber (Num 0)) None = Some_m (JNumber (Num 0))"
    by (simp add: ofVal_default)
  moreover have "ofVal (JNumber (Num 0)) (Some True) = None_m"
    by (simp add: ofVal_True)
  moreover have "ofVal v None =
       (if v = JNull \<or> v = JUndefined \<or> (\<exists>n. v = JObject n True) then None_m else Some_m v)"
    by (simp only: ofVal_default eq_null_iff)
  moreover have "ofVal v (Some False) =
       (if v = JNull \<or> v = JUndefined \<or> (\<exists>n. v = JObject n True) then None_m else Some_m v)"
    by (simp only: ofVal_False eq_null_iff)
  ultimately show ?thesis
    using ofVal_True [of v] by blast
qed

text \<open>
  The claim as it was written, \<open>None_m\<close> exactly on null and undefined, fails on an
  object with the \<^verbatim>\<open>[[IsHTMLDDA]]\<close> internal slot: it is neither null nor undefined, and
  \<^verbatim>\<open>ofVal\<close> returns \<open>None_m\<close> for it, not \<open>Some_m\<close> of it.
\<close>

theorem ofVal_absent_counterexample:
  "JObject 0 True \<noteq> JNull
   \<and> JObject 0 True \<noteq> JUndefined
   \<and> ofVal (JObject 0 True) None = None_m
   \<and> ofVal (JObject 0 True) (Some False) = None_m
   \<and> ofVal (JObject 0 True) None \<noteq> Some_m (JObject 0 True)"
  by (simp add: ofVal_def)

text \<open>
  Claim C7, as amended.  For every \<open>v\<close>, null and undefined among them,
  \<^verbatim>\<open>ofNullable(v)\<close> is \<^verbatim>\<open>ofVal(v)\<close> without the truthy check: \<open>None_m\<close> exactly when \<open>v\<close> is
  loosely equal to null, that is when \<open>v\<close> is null, undefined or an object with the
  \<^verbatim>\<open>[[IsHTMLDDA]]\<close> internal slot, and \<open>Some_m v\<close> otherwise.
\<close>

theorem ofNullable_is_ofVal:
  "ofNullable v = ofVal v None
   \<and> ofNullable v = ofVal v (Some False)
   \<and> (ofNullable v = None_m) = (v = JNull \<or> v = JUndefined \<or> (\<exists>n. v = JObject n True))
   \<and> ofNullable v =
       (if v = JNull \<or> v = JUndefined \<or> (\<exists>n. v = JObject n True) then None_m else Some_m v)"
proof -
  have "ofNullable v = (if eq_null v then None_m else Some_m v)"
    by (simp add: ofNullable_def ofVal_default)
  then show ?thesis
    by (simp add: ofVal_default ofVal_False eq_null_iff)
qed

text \<open>
  The claim as it was written, \<open>None_m\<close> exactly on null and undefined, fails on an
  object with the \<^verbatim>\<open>[[IsHTMLDDA]]\<close> internal slot, for which \<^verbatim>\<open>val == null\<close> holds.
\<close>

theorem ofNullable_counterexample:
  "JObject 0 True \<noteq> JNull
   \<and> JObject 0 True \<noteq> JUndefined
   \<and> ofNullable (JObject 0 True) = None_m
   \<and> ofNullable (JObject 0 True) \<noteq> Some_m (JObject 0 True)"
  by (simp add: ofNullable_def)

text \<open>
  Claim C8.  \<^verbatim>\<open>iter\<close> on \<open>None_m\<close> does nothing: the action is not called, and a probe's
  log stays as it was.  On \<open>Some_m v\<close> it is one call of the action on \<open>v\<close>: the probe's
  log gets the one entry \<open>v\<close>.  What the action returns is dropped: \<^verbatim>\<open>iter\<close> returns
  the one value of type \<open>unit\<close>.
\<close>

theorem iter_calls_action_once:
  "iter action None_m = ret ()
   \<and> iter (spy action) None_m (calls, s) = (Inr (), (calls, s))
   \<and> iter action (Some_m v) = seq (action v) (\<lambda>r. ret ())
   \<and> snd (iter (spy action) (Some_m v) (calls, s)) = (calls @ [v], snd (action v s))
   \<and> fst (iter (\<lambda>x. ret (r x)) m s) = Inr ()"
proof -
  have "snd (iter (spy action) (Some_m v) (calls, s)) = (calls @ [v], snd (action v s))"
    by (simp add: iter_Some snd_seq_ret spy_apply)
  moreover have "fst (iter (\<lambda>x. ret (r x)) m s) = Inr ()"
    by (cases m) (simp_all add: iter_def ret_def seq_def)
  ultimately show ?thesis
    by (intro conjI) (assumption | rule iter_None iter_Some ret_unchanged [OF iter_None])+
qed

text \<open>
  Claim C9.  \<^verbatim>\<open>ofNullable\<close> and \<^verbatim>\<open>ofUndefinable\<close> are the same function: the loose
  comparisons \<^verbatim>\<open>val == null\<close> and \<^verbatim>\<open>val == undefined\<close> hold of the same values (both
  of null and of undefined, and both of an object with the \<^verbatim>\<open>[[IsHTMLDDA]]\<close> internal
  slot), and both functions return \<open>None_m\<close> exactly on those.
\<close>

theorem ofNullable_is_ofUndefinable:
  "ofNullable v = ofUndefinable v
   \<and> eq_null v = eq_undefined v
   \<and> (ofNullable v = None_m) = (v = JNull \<or> v = JUndefined \<or> (\<exists>n. v = JObject n True))
   \<and> (ofUndefinable v = None_m) = (v = JNull \<or> v = JUndefined \<or> (\<exists>n. v = JObject n True))"
proof -
  have "ofNullable v = (if eq_null v then None_m else Some_m v)"
    by (simp add: ofNullable_def ofVal_default)
  moreover have "ofUndefinable v = (if eq_null v then None_m else Some_m v)"
    by (simp add: ofUndefinable_def ofVal_default eq_undefined_iff)
  ultimately show ?thesis
    by (simp add: eq_undefined_iff eq_null_iff)
qed

text \<open>
  Claim C10, as amended.  \<^verbatim>\<open>ofNullable(toNullable(m))\<close> is \<open>m\<close> exactly when \<open>m\<close> is
  \<open>None_m\<close> or \<open>Some_m v\<close> with \<open>v\<close> not loosely equal to null: neither null, nor
  undefined, nor an object with the \<^verbatim>\<open>[[IsHTMLDDA]]\<close> internal slot.  For \<^verbatim>\<open>Some(null)\<close>
  and \<^verbatim>\<open>Some(undefined)\<close> the round trip gives \<open>None_m\<close>: \<^verbatim>\<open>toNullable\<close> sends
  \<^verbatim>\<open>Some(null)\<close> and \<^verbatim>\<open>None()\<close> to the same null.
\<close>

theorem toNullable_round_trip:
  "(ofNullable (toNullable m) = m) =
       (m = None_m
        \<or> (\<exists>v. m = Some_m v \<and> v \<noteq> JNull \<and> v \<noteq> JUndefined \<and> (\<forall>n. v \<noteq> JObject n True)))
   \<and> ofNullable (toNullable None_m) = None_m
   \<and> ofNullable (toNullable (Some_m JNull)) = None_m
   \<and> ofNullable (toNullable (Some_m JUndefined)) = None_m
   \<and> ofNullable (toNullable (Some_m JNull)) \<noteq> Some_m JNull
   \<and> ofNullable (toNullable (Some_m JUndefined)) \<noteq> Some_m JUndefined
   \<and> toNullable (Some_m JNull) = toNullable None_m"
proof -
  have lift: "ofNullable x = (if eq_null x then None_m else Some_m x)" for x
    by (simp add: ofNullable_def ofVal_default)
  have "(ofNullable (toNullable m) = m) =
       (m = None_m
        \<or> (\<exists>v. m = Some_m v \<and> v \<noteq> JNull \<and> v \<noteq> JUndefined \<and> (\<forall>n. v \<noteq> JObject n True)))"
    by (cases m) (auto simp: lift toNullable_def eq_null_iff)
  then show ?thesis
    by (simp add: lift toNullable_def)
qed

text \<open>
  The claim as it was written, the round trip returning \<open>m\<close> for every \<open>Some_m v\<close> with
  \<open>v\<close> neither null nor undefined, fails on \<open>Some_m\<close> of an object with the
  \<^verbatim>\<open>[[IsHTMLDDA]]\<close> internal slot: \<^verbatim>\<open>toNullable\<close> returns the object, and \<^verbatim>\<open>ofNullable\<close>
  returns \<open>None_m\<close> for it.
\<close>

theorem toNullable_round_trip_counterexample:
  "JObject 0 True \<noteq> JNull
   \<and> JObject 0 True \<noteq> JUndefined
   \<and> ofNullable (toNullable (Some_m (JObject 0 True))) = None_m
   \<and> ofNullable (toNullable (Some_m (JObject 0 True))) \<noteq> Some_m (JObject 0 True)"
  by (simp add: ofNullable_def toNullable_def)

end
